theory Spec2Isabelle
  imports Main "HOL-Library.Word"
begin

unbundle bit_operations_syntax

chapter \<open>UEFI firmware image parser: a shallow embedding\<close>

text \<open>
  Bytes are \<open>8 word\<close>, Go's \<open>uint16\<close>, \<open>uint32\<close> and \<open>uint64\<close> are words of that
  width (so \<open>+\<close> and \<open>-\<close> wrap as in Go), byte slices are lists, and every error return
  of the Go code is a value of a sum type (\<open>Inl\<close> the error).
\<close>

type_synonym byte = "8 word"

section \<open>Package guid\<close>

text \<open>
  \<open>GUID\<close> is \<open>[16]byte\<close>; it is modelled as a byte list, of length 16 wherever the Go
  type says so. \<open>reverse\<close> on the sub-slice \<open>u[i : i+fieldlen]\<close> followed by
  \<open>i += fieldlen\<close> is \<open>reverse_fields\<close>. \<open>hex.DecodeString\<close> (Go standard library) decodes
  pairs of hexadecimal digits of either case and fails on any other byte or on an odd
  length; \<open>%02X\<close> prints a byte as two upper-case digits.
\<close>

datatype guid_error = BadFormat | BadLength

abbreviation strip_hyphens :: "string \<Rightarrow> string" where
  "strip_hyphens s \<equiv> filter (\<lambda>c. c \<noteq> CHR ''-'') s"

definition fields :: "nat list" where
  "fields = [4, 2, 2, 1, 1, 1, 1, 1, 1, 1, 1]"

fun reverse_fields :: "nat list \<Rightarrow> 'a list \<Rightarrow> 'a list" where
  "reverse_fields [] u = u"
| "reverse_fields (fieldlen # fs) u = rev (take fieldlen u) @ reverse_fields fs (drop fieldlen u)"

definition fromHexChar :: "char \<Rightarrow> byte option" where
  "fromHexChar c =
     (let n = (of_char c :: nat) in
      if 48 \<le> n \<and> n \<le> 57 then Some (of_nat (n - 48))
      else if 97 \<le> n \<and> n \<le> 102 then Some (of_nat (n - 97 + 10))
      else if 65 \<le> n \<and> n \<le> 70 then Some (of_nat (n - 65 + 10))
      else None)"

fun hex_DecodeString :: "string \<Rightarrow> byte list option" where
  "hex_DecodeString [] = Some []"
| "hex_DecodeString [p] = None"
| "hex_DecodeString (p # q # rest) =
     (case fromHexChar p of
        None \<Rightarrow> None
      | Some a \<Rightarrow>
          (case fromHexChar q of
             None \<Rightarrow> None
           | Some b \<Rightarrow>
               (case hex_DecodeString rest of
                  None \<Rightarrow> None
                | Some bs \<Rightarrow> Some ((push_bit 4 a OR b) # bs))))"

definition upperhex :: "string" where
  "upperhex = ''0123456789ABCDEF''"

definition fmt_02X :: "byte \<Rightarrow> string" where
  "fmt_02X b = [upperhex ! unat (drop_bit 4 b), upperhex ! unat (b AND 15)]"

definition hexs :: "byte list \<Rightarrow> string" where
  "hexs bs = concat (map fmt_02X bs)"

definition Parse :: "string \<Rightarrow> guid_error + byte list" where
  "Parse s =
     (let stripped = strip_hyphens s in
      case hex_DecodeString stripped of
        None \<Rightarrow> Inl BadFormat
      | Some decoded \<Rightarrow>
          if length decoded \<noteq> 16 then Inl BadLength
          else Inr (reverse_fields fields decoded))"







lemma reverse_fields_Nil [simp]: "reverse_fields fs [] = []"
  by (induction fs) auto


lemma length_reverse_fields [simp]: "length (reverse_fields fs u) = length u"
  by (induction fs arbitrary: u) auto















lemma length_fmt_02X [simp]: "length (fmt_02X b) = 2"
  by (simp add: fmt_02X_def)

lemma length_hexs [simp]: "length (hexs bs) = 2 * length bs"
  by (induction bs) (simp_all add: hexs_def)














section \<open>Package uefi: data\<close>

text \<open>
  Go structs are records; fields carry a prefix (\<open>fv_\<close>, \<open>f_\<close>, \<open>s_\<close>) because the Go
  structs share field names. A \<open>[3]uint8\<close> is a triple of bytes. Every error the parser
  returns has a constructor of its own; \<open>ErrEOF\<close> stands for the \<open>io.EOF\<close> and
  \<open>io.ErrUnexpectedEOF\<close> of \<open>binary.Read\<close>; \<open>ErrPanic\<close> is a slice expression out
  of range.
\<close>

type_synonym guid = "byte list"
type_synonym uint16 = "16 word"
type_synonym uint32 = "32 word"
type_synonym uint64 = "64 word"
type_synonym ThreeUint8 = "byte \<times> byte \<times> byte"

datatype uefi_error =
    ErrEOF
  | ErrPanic
  | ErrAlignedOffsetInFV
  | ErrInsertEmptyFile
  | ErrFVTooSmall
  | ErrErasePolarityConflict
  | ErrFVLength
  | ErrFVExtHeader
  | ErrOffsetBeyondFV
  | ErrFileConstruct
  | ErrFileLengthZero
  | ErrFileTooBig
  | ErrNVarDataOffset
  | ErrFileSections
  | ErrSectionLengthZero
  | ErrSectionAllFF
  | ErrSectionSizeMismatch
  | ErrOversizeHdr
  | ErrEncapsulatedSection
  | ErrDepExNoEnd
  | ErrDepExGUID
  | ErrDepExOpcode
  | ErrOverlappingRegions
  | ErrRegionConstructor
  | ErrTooShort
  | ErrNoBIOSRegion

subsection \<open>Little-endian integers and slices\<close>

definition le_word :: "byte list \<Rightarrow> 'a::len word" where
  "le_word bs = foldr (\<lambda>b acc. ucast b OR push_bit 8 acc) bs 0"

definition word_le :: "nat \<Rightarrow> 'a::len word \<Rightarrow> byte list" where
  "word_le n w = map (\<lambda>i. ucast (drop_bit (8 * i) w)) [0..<n]"

text \<open>\<open>b[lo:hi]\<close>, where the bounds are in range.\<close>

definition slice :: "'a list \<Rightarrow> nat \<Rightarrow> nat \<Rightarrow> 'a list" where
  "slice b lo hi = take (hi - lo) (drop lo b)"

subsection \<open>Utilities\<close>

text \<open>
  Modelled from the spec: \<open>Read3Size\<close>, \<open>Write3Size\<close>, \<open>Align4\<close>, \<open>Align8\<close> and
  \<open>SetErasePolarity\<close> are called by the sources but defined in a file that is not part of
  them. The spec gives \<open>read3(bytes[3])\<close> (a three-byte little-endian size; its callers
  store the result in a \<open>uint64\<close>), \<open>write3(u64)\<close>, which clamps to \<open>0xFFFFFF\<close>,
  \<open>align(x, n)\<close>, which rounds \<open>x\<close> up to a multiple of \<open>n\<close>, and an erase-polarity
  setter where the first caller wins and a later caller with a different value gets an
  error. The polarity is \<open>None\<close> until it is set.
\<close>

definition Read3Size :: "ThreeUint8 \<Rightarrow> uint64" where
  "Read3Size sz = (case sz of (b0, b1, b2) \<Rightarrow> le_word [b0, b1, b2])"

definition Write3Size :: "uint64 \<Rightarrow> ThreeUint8" where
  "Write3Size sz =
     (if sz \<ge> 0xFFFFFF then (0xFF, 0xFF, 0xFF)
      else (ucast sz, ucast (drop_bit 8 sz), ucast (drop_bit 16 sz)))"

definition Align :: "uint64 \<Rightarrow> nat \<Rightarrow> uint64" where
  "Align val base = of_nat (((unat val + base - 1) div base) * base)"

definition Align4 :: "uint64 \<Rightarrow> uint64" where
  "Align4 val = Align val 4"

definition Align8 :: "uint64 \<Rightarrow> uint64" where
  "Align8 val = Align val 8"

definition SetErasePolarity :: "byte \<Rightarrow> byte option \<Rightarrow> uefi_error option \<times> byte option" where
  "SetErasePolarity ep cur =
     (case cur of
        None \<Rightarrow> (None, Some ep)
      | Some old \<Rightarrow> if old = ep then (None, Some ep) else (Some ErrErasePolarityConflict, cur))"

text \<open>\<open>Checksum8\<close> (file.go): the wrapping eight-bit sum of the bytes.\<close>

definition Checksum8 :: "byte list \<Rightarrow> byte" where
  "Checksum8 data = foldl (\<lambda>sum d. sum + d) 0 data"

lemma foldl_add_start: "foldl (\<lambda>sum d. sum + d) (a::byte) xs = a + foldl (\<lambda>sum d. sum + d) 0 xs"
proof (induction xs arbitrary: a)
  case Nil
  then show ?case by simp
next
  case (Cons x xs)
  have "foldl (\<lambda>sum d. sum + d) (a + x) xs = (a + x) + foldl (\<lambda>sum d. sum + d) 0 xs"
    by (rule Cons.IH)
  moreover have "foldl (\<lambda>sum d. sum + d) (0 + x) xs = x + foldl (\<lambda>sum d. sum + d) 0 xs"
    using Cons.IH [of x] by simp
  ultimately show ?case by (simp add: add.assoc)
qed

lemma Checksum8_Nil [simp]: "Checksum8 [] = 0"
  by (simp add: Checksum8_def)

lemma Checksum8_Cons [simp]: "Checksum8 (x # xs) = x + Checksum8 xs"
  using foldl_add_start [of x xs] by (simp add: Checksum8_def)

lemma Checksum8_append [simp]: "Checksum8 (xs @ ys) = Checksum8 xs + Checksum8 ys"
  by (induction xs) (simp_all add: add.assoc)

subsection \<open>Firmware volumes, files and sections\<close>

text \<open>
  \<open>FVInfo\<close> holds the fields of \<open>FirmwareVolume\<close> (with the embedded fixed and extended
  headers), \<open>FileInfo\<close> those of \<open>File\<close> (with \<open>FileHeaderExtended\<close>) and
  \<open>SectionInfo\<close> those of \<open>Section\<close>; the children (\<open>Files\<close>, \<open>Sections\<close>,
  \<open>Encapsulated\<close>) are kept by the tree datatype below, because the three structs refer
  to each other.
\<close>

record Block =
  blk_Count :: uint32
  blk_Size :: uint32

record FVInfo =
  fv_FileSystemGUID :: guid
  fv_Length :: uint64
  fv_Signature :: uint32
  fv_Attributes :: uint32
  fv_HeaderLen :: uint16
  fv_Checksum :: uint16
  fv_ExtHeaderOffset :: uint16
  fv_Reserved :: byte
  fv_Revision :: byte
  fv_Blocks :: "Block list"
  fv_FVName :: guid
  fv_ExtHeaderSize :: uint32
  fv_DataOffset :: uint64
  fv_FVType :: string
  fv_buf :: "byte list"
  fv_FVOffset :: uint64
  fv_ExtractPath :: string
  fv_Resizable :: bool
  fv_FreeSpace :: uint64

record FileInfo =
  f_GUID :: guid
  f_Checksum_Header :: byte
  f_Checksum_File :: byte
  f_Type :: byte
  f_Attributes :: byte
  f_Size :: ThreeUint8
  f_State :: byte
  f_ExtendedSize :: uint64
  f_TypeName :: string
  f_buf :: "byte list"
  f_ExtractPath :: string
  f_DataOffset :: uint64

datatype DepExOpCode = BEFORE | AFTER | PUSH | AND_op | OR_op | NOT_op | TRUE | FALSE | END | SOR

record DepExOp =
  op_OpCode :: DepExOpCode
  op_GUID :: "guid option"

record SectionGUIDDefined =
  gd_GUID :: guid
  gd_DataOffset :: uint16
  gd_Attributes :: uint16
  gd_Compression :: string

record SectionInfo =
  s_Size :: ThreeUint8
  s_Type :: byte
  s_ExtendedSize :: uint32
  s_TypeName :: string
  s_buf :: "byte list"
  s_ExtractPath :: string
  s_FileOrder :: nat
  s_TypeSpecific :: "SectionGUIDDefined option"
  s_Name :: string
  s_BuildNumber :: uint16
  s_Version :: string
  s_DepEx :: "DepExOp list"

text \<open>The zero values of the Go structs.\<close>

definition zero_GUID :: guid where
  "zero_GUID = replicate 16 0"

definition zero_FVInfo :: FVInfo where
  "zero_FVInfo = \<lparr>fv_FileSystemGUID = zero_GUID, fv_Length = 0, fv_Signature = 0,
     fv_Attributes = 0, fv_HeaderLen = 0, fv_Checksum = 0, fv_ExtHeaderOffset = 0,
     fv_Reserved = 0, fv_Revision = 0, fv_Blocks = [], fv_FVName = zero_GUID,
     fv_ExtHeaderSize = 0, fv_DataOffset = 0, fv_FVType = [], fv_buf = [], fv_FVOffset = 0,
     fv_ExtractPath = [], fv_Resizable = False, fv_FreeSpace = 0\<rparr>"

definition zero_FileInfo :: FileInfo where
  "zero_FileInfo = \<lparr>f_GUID = zero_GUID, f_Checksum_Header = 0, f_Checksum_File = 0,
     f_Type = 0, f_Attributes = 0, f_Size = (0, 0, 0), f_State = 0, f_ExtendedSize = 0,
     f_TypeName = [], f_buf = [], f_ExtractPath = [], f_DataOffset = 0\<rparr>"

definition zero_SectionInfo :: SectionInfo where
  "zero_SectionInfo = \<lparr>s_Size = (0, 0, 0), s_Type = 0, s_ExtendedSize = 0, s_TypeName = [],
     s_buf = [], s_ExtractPath = [], s_FileOrder = 0, s_TypeSpecific = None, s_Name = [],
     s_BuildNumber = 0, s_Version = [], s_DepEx = []\<rparr>"

section \<open>firmwarevolume.go: FindFirmwareVolumeOffset\<close>












section \<open>firmwarevolume.go: InsertFile\<close>

text \<open>
  \<open>InsertFile\<close> changes \<open>fv.buf\<close> in place and returns an error or \<open>nil\<close>: the model
  returns the error (if any) and the volume as it is left. The first argument is the
  global \<open>Attributes.ErasePolarity\<close>. The padding loop
  \<open>for i, num := uint64(0), alignedOffset-bufLen; i < num; i++\<close> is \<open>pad_loop\<close>.
\<close>

lemma unat_inc_less:
  fixes i num :: "'a::len word"
  assumes "i < num"
  shows "unat (i + 1) = unat i + 1"
proof -
  have "unat i < unat num" using assms by (simp add: word_less_nat_alt)
  moreover have "unat num < 2 ^ LENGTH('a)" by (rule unsigned_less)
  ultimately have "Suc (unat i) < 2 ^ LENGTH('a)" by linarith
  then have "unat i + unat (1 :: 'a word) < 2 ^ LENGTH('a)" by simp
  then have "unat (i + 1) = unat i + unat (1 :: 'a word)" by (simp only: unat_add_lem)
  then show ?thesis by simp
qed

function pad_loop :: "byte \<Rightarrow> uint64 \<Rightarrow> uint64 \<Rightarrow> byte list \<Rightarrow> byte list" where
  "pad_loop ep i num buf =
     (if i < num then pad_loop ep (i + 1) num (buf @ [ep]) else buf)"
  by pat_completeness auto
termination
proof (relation "measure (\<lambda>(ep, i, num, buf). unat num - unat i)")
  show "wf (measure (\<lambda>(ep, i, num, buf). unat num - unat i))" by simp
next
  fix ep :: byte and i num :: uint64 and buf :: "byte list"
  assume lt: "i < num"
  then have "unat (i + 1) = unat i + 1" by (rule unat_inc_less)
  moreover have "unat i < unat num" using lt by (simp add: word_less_nat_alt)
  ultimately show "((ep, i + 1, num, buf @ [ep]), (ep, i, num, buf))
      \<in> measure (\<lambda>(ep, i, num, buf). unat num - unat i)"
    by simp
qed

declare pad_loop.simps [simp del]

definition InsertFile :: "byte \<Rightarrow> FVInfo \<Rightarrow> uint64 \<Rightarrow> byte list \<Rightarrow> uefi_error option \<times> FVInfo" where
  "InsertFile ErasePolarity fv alignedOffset fBuf =
     (let bufLen = (of_nat (length (fv_buf fv)) :: uint64) in
      if bufLen > alignedOffset then (Some ErrAlignedOffsetInFV, fv)
      else
        let fv1 = fv\<lparr>fv_buf := pad_loop ErasePolarity 0 (alignedOffset - bufLen) (fv_buf fv)\<rparr>;
            fLen = (of_nat (length fBuf) :: uint64)
        in if fLen = 0 then (Some ErrInsertEmptyFile, fv1)
           else (None, fv1\<lparr>fv_buf := fv_buf fv1 @ fBuf\<rparr>))"

lemma pad_loop_replicate:
  "i \<le> num \<Longrightarrow> pad_loop ep i num buf = buf @ replicate (unat num - unat i) ep"
proof (induction ep i num buf rule: pad_loop.induct)
  case (1 ep i num buf)
  show ?case
  proof (cases "i < num")
    case True
    then have s: "unat (i + 1) = unat i + 1" by (rule unat_inc_less)
    have lt: "unat i < unat num" using True by (simp add: word_less_nat_alt)
    then have le: "i + 1 \<le> num" using s by (simp add: word_le_nat_alt)
    have "pad_loop ep (i + 1) num (buf @ [ep]) = (buf @ [ep]) @ replicate (unat num - unat (i + 1)) ep"
      using "1.IH" [OF True le] .
    also have "\<dots> = buf @ replicate (Suc (unat num - unat (i + 1))) ep"
      by (simp add: replicate_app_Cons_same)
    also have "Suc (unat num - unat (i + 1)) = unat num - unat i" using s lt by simp
    finally show ?thesis using True unfolding pad_loop.simps [of ep i num buf] by simp
  next
    case False
    with "1.prems" have "i = num" by simp
    then show ?thesis unfolding pad_loop.simps [of ep i num buf] by simp
  qed
qed

text \<open>
  Claim C10. With an empty \<open>fBuf\<close> and an aligned offset beyond the end of the buffer,
  \<open>InsertFile\<close> returns the empty-file error after it has padded the buffer with the
  erase-polarity byte up to the aligned offset: the volume is changed although an error
  is returned. When the aligned offset precedes the end of the buffer, the error is
  returned with the volume unchanged. (A Go slice is shorter than \<open>2^63\<close>.)
\<close>

theorem InsertFile_error_paths:
  assumes "length (fv_buf fv) < 2 ^ 63"
  shows "(of_nat (length (fv_buf fv)) < alignedOffset \<longrightarrow>
            InsertFile ep fv alignedOffset [] =
              (Some ErrInsertEmptyFile,
               fv\<lparr>fv_buf := fv_buf fv @ replicate (unat alignedOffset - length (fv_buf fv)) ep\<rparr>) \<and>
            length (fv_buf (snd (InsertFile ep fv alignedOffset []))) = unat alignedOffset \<and>
            length (fv_buf fv) < unat alignedOffset) \<and>
         (alignedOffset < of_nat (length (fv_buf fv)) \<longrightarrow>
            InsertFile ep fv alignedOffset fBuf = (Some ErrAlignedOffsetInFV, fv))"
proof (intro conjI impI)
  let ?n = "length (fv_buf fv)"
  let ?bufLen = "of_nat ?n :: uint64"
  have "?n < 2 ^ LENGTH(64)" using assms by simp
  then have u: "unat ?bufLen = ?n" by (rule of_nat_inverse [OF refl])
  {
    assume lt: "?bufLen < alignedOffset"
    then have nlt: "\<not> alignedOffset < ?bufLen" by simp
    have le: "?bufLen \<le> alignedOffset" using lt by simp
    have d: "unat (alignedOffset - ?bufLen) = unat alignedOffset - ?n"
      using unat_sub [OF le] u by simp
    have p: "pad_loop ep 0 (alignedOffset - ?bufLen) (fv_buf fv) =
        fv_buf fv @ replicate (unat alignedOffset - ?n) ep"
      using pad_loop_replicate [of 0 "alignedOffset - ?bufLen" ep "fv_buf fv"] d by simp
    show r: "InsertFile ep fv alignedOffset [] =
        (Some ErrInsertEmptyFile,
         fv\<lparr>fv_buf := fv_buf fv @ replicate (unat alignedOffset - ?n) ep\<rparr>)"
      using nlt p by (simp add: InsertFile_def Let_def)
    show l: "?n < unat alignedOffset" using lt u by (simp add: word_less_nat_alt)
    show "length (fv_buf (snd (InsertFile ep fv alignedOffset []))) = unat alignedOffset"
      using l by (simp add: r)
  }
  {
    assume "alignedOffset < ?bufLen"
    then show "InsertFile ep fv alignedOffset fBuf = (Some ErrAlignedOffsetInFV, fv)"
      by (simp add: InsertFile_def Let_def)
  }
qed

theorem InsertFile_error_paths_witness:
  "InsertFile 0xFF (zero_FVInfo\<lparr>fv_buf := [1, 2, 3]\<rparr>) 8 [] =
     (Some ErrInsertEmptyFile,
      zero_FVInfo\<lparr>fv_buf := [1, 2, 3, 0xFF, 0xFF, 0xFF, 0xFF, 0xFF]\<rparr>) \<and>
   InsertFile 0xFF (zero_FVInfo\<lparr>fv_buf := [1, 2, 3]\<rparr>) 2 [7] =
     (Some ErrAlignedOffsetInFV, zero_FVInfo\<lparr>fv_buf := [1, 2, 3]\<rparr>)"
proof -
  let ?fv = "zero_FVInfo\<lparr>fv_buf := [1, 2, 3]\<rparr>"
  have h: "length (fv_buf ?fv) < 2 ^ 63" by simp
  have a: "(of_nat (length (fv_buf ?fv)) :: uint64) < 8" by simp
  have b: "(2 :: uint64) < of_nat (length (fv_buf ?fv))" by simp
  have r: "replicate 5 (0xFF :: byte) = [0xFF, 0xFF, 0xFF, 0xFF, 0xFF]" by code_simp
  have "InsertFile 0xFF ?fv 8 [] =
      (Some ErrInsertEmptyFile,
       ?fv\<lparr>fv_buf := fv_buf ?fv @ replicate (unat (8 :: uint64) - length (fv_buf ?fv)) 0xFF\<rparr>)"
    using InsertFile_error_paths [OF h, of 8 "0xFF" "[7]"] a by blast
  moreover have "InsertFile 0xFF ?fv 2 [7] = (Some ErrAlignedOffsetInFV, ?fv)"
    using InsertFile_error_paths [OF h, of 2 "0xFF" "[7]"] b by blast
  ultimately show ?thesis by (simp add: r)
qed

section \<open>file.go: attributes, SetSize, ChecksumHeader and ChecksumAndAssemble\<close>

definition FileHeaderMinLength :: nat where
  "FileHeaderMinLength = 0x18"

definition FileHeaderExtMinLength :: nat where
  "FileHeaderExtMinLength = 0x20"


definition IsLarge :: "byte \<Rightarrow> bool" where
  "IsLarge a = (a AND 0x01 \<noteq> 0)"

definition setLarge :: "bool \<Rightarrow> byte \<Rightarrow> byte" where
  "setLarge large a = (if large then a OR 0x01 else a AND 0xFE)"


definition HeaderLen :: "FileInfo \<Rightarrow> uint64" where
  "HeaderLen f =
     (if IsLarge (f_Attributes f) then of_nat FileHeaderExtMinLength
      else of_nat FileHeaderMinLength)"

definition SetSize :: "FileInfo \<Rightarrow> uint64 \<Rightarrow> bool \<Rightarrow> FileInfo" where
  "SetSize f sz resizeFile =
     (let f1 = f\<lparr>f_ExtendedSize := sz, f_Attributes := setLarge False (f_Attributes f)\<rparr>;
          f2 = (if f_ExtendedSize f1 > 0xFFFFFF then
                  (let f1' = (if resizeFile then
                                f1\<lparr>f_ExtendedSize := f_ExtendedSize f1 +
                                      of_nat (FileHeaderExtMinLength - FileHeaderMinLength)\<rparr>
                              else f1)
                   in f1'\<lparr>f_Attributes := setLarge True (f_Attributes f1')\<rparr>)
                else f1)
      in f2\<lparr>f_Size := Write3Size (f_ExtendedSize f2)\<rparr>)"





lemma length_word_le [simp]: "length (word_le n w) = n"
  by (simp add: word_le_def)









section \<open>region.go, rawregion.go and the flash image: regions and gap filling\<close>












































section \<open>The parser: sections, files and firmware volumes\<close>

subsection \<open>Tables\<close>

text \<open>
  \<open>guid.MustParse\<close> ends the process on a malformed text; the texts of the source are
  well formed.
\<close>

definition MustParse :: "string \<Rightarrow> guid" where
  "MustParse s = (case Parse s of Inr g \<Rightarrow> g | Inl e \<Rightarrow> [])"

definition FFS1 :: guid where "FFS1 = MustParse ''7a9354d9-0468-444a-81ce-0bf617d890df''"
definition FFS2 :: guid where "FFS2 = MustParse ''8c8ce578-8a3d-4f1c-9935-896185c32dd3''"
definition FFS3 :: guid where "FFS3 = MustParse ''5473c07a-3dcb-4dca-bd6f-1e9689e7349a''"
definition EVSA :: guid where "EVSA = MustParse ''fff12b8d-7696-4c8b-a985-2747075b4f50''"
definition NVAR :: guid where "NVAR = MustParse ''cef5b9a3-476d-497f-9fdc-e98143e0422c''"
definition EVSA2 :: guid where "EVSA2 = MustParse ''00504624-8a59-4eeb-bd0f-6b36e96128e0''"
definition AppleBoot :: guid where "AppleBoot = MustParse ''04adeead-61ff-4d31-b6ba-64f8bf901f5a''"
definition PFH1 :: guid where "PFH1 = MustParse ''16b45da2-7d70-4aea-a58d-760e9ecb841d''"
definition PFH2 :: guid where "PFH2 = MustParse ''e360bdba-c3ce-46be-8f37-b231e5cb9f35''"

definition FVGUIDs :: "(guid \<times> string) list" where
  "FVGUIDs = [(FFS1, ''FFS1''), (FFS2, ''FFS2''), (FFS3, ''FFS3''), (EVSA, ''NVRAM_EVSA''),
     (NVAR, ''NVRAM_NVAR''), (EVSA2, ''NVRAM_EVSA2''), (AppleBoot, ''APPLE_BOOT''),
     (PFH1, ''PFH1''), (PFH2, ''PFH2'')]"

definition supportedFVs :: "guid \<Rightarrow> bool" where
  "supportedFVs g = (g = FFS2 \<or> g = FFS3)"

definition fileTypeNames :: "(byte \<times> string) list" where
  "fileTypeNames =
     [(0x01, ''EFI_FV_FILETYPE_RAW''), (0x02, ''EFI_FV_FILETYPE_FREEFORM''),
      (0x03, ''EFI_FV_FILETYPE_SECURITY_CORE''), (0x04, ''EFI_FV_FILETYPE_PEI_CORE''),
      (0x05, ''EFI_FV_FILETYPE_DXE_CORE''), (0x06, ''EFI_FV_FILETYPE_PEIM''),
      (0x07, ''EFI_FV_FILETYPE_DRIVER''), (0x08, ''EFI_FV_FILETYPE_COMBINED_PEIM_DRIVER''),
      (0x09, ''EFI_FV_FILETYPE_APPLICATION''), (0x0A, ''EFI_FV_FILETYPE_MM''),
      (0x0B, ''EFI_FV_FILETYPE_FIRMWARE_VOLUME_IMAGE''),
      (0x0C, ''EFI_FV_FILETYPE_COMBINED_MM_DXE''), (0x0D, ''EFI_FV_FILETYPE_MM_CORE''),
      (0x0E, ''EFI_FV_FILETYPE_MM_STANDALONE''),
      (0x0F, ''EFI_FV_FILETYPE_MM_CORE_STANDALONE'')]"

definition lowerhex :: string where
  "lowerhex = ''0123456789abcdef''"

text \<open>\<open>%#x\<close> of a value below 256.\<close>

definition fmt_hash_x :: "byte \<Rightarrow> string" where
  "fmt_hash_x b =
     ''0x'' @ (if unat b < 16 then [lowerhex ! unat b]
               else [lowerhex ! (unat b div 16), lowerhex ! (unat b mod 16)])"

definition FVFileType_String :: "byte \<Rightarrow> string" where
  "FVFileType_String t =
     (case map_of fileTypeNames t of Some s \<Rightarrow> s | None \<Rightarrow> ''UNKNOWN_FILETYPE_'' @ fmt_hash_x t)"

definition FVFileTypeRaw :: byte where "FVFileTypeRaw = 0x01"

definition SupportedFiles :: "byte \<Rightarrow> bool" where
  "SupportedFiles t =
     (t \<in> {0x02, 0x03, 0x04, 0x05, 0x07, 0x08, 0x09, 0x0A, 0x0B, 0x0C, 0x0D, 0x0E, 0x0F})"

definition SectionTypeGUIDDefined :: byte where "SectionTypeGUIDDefined = 0x02"
definition SectionTypeDXEDepEx :: byte where "SectionTypeDXEDepEx = 0x13"
definition SectionTypeVersion :: byte where "SectionTypeVersion = 0x14"
definition SectionTypeUserInterface :: byte where "SectionTypeUserInterface = 0x15"
definition SectionTypeFirmwareVolumeImage :: byte where "SectionTypeFirmwareVolumeImage = 0x17"
definition SectionTypePEIDepEx :: byte where "SectionTypePEIDepEx = 0x1b"
definition SectionMMDepEx :: byte where "SectionMMDepEx = 0x1c"

definition sectionTypeNames :: "(byte \<times> string) list" where
  "sectionTypeNames =
     [(0x01, ''EFI_SECTION_COMPRESSION''), (0x02, ''EFI_SECTION_GUID_DEFINED''),
      (0x03, ''EFI_SECTION_DISPOSABLE''), (0x10, ''EFI_SECTION_PE32''),
      (0x11, ''EFI_SECTION_PIC''), (0x12, ''EFI_SECTION_TE''),
      (0x13, ''EFI_SECTION_DXE_DEPEX''), (0x14, ''EFI_SECTION_VERSION''),
      (0x15, ''EFI_SECTION_USER_INTERFACE''), (0x16, ''EFI_SECTION_COMPATIBILITY16''),
      (0x17, ''EFI_SECTION_FIRMWARE_VOLUME_IMAGE''),
      (0x18, ''EFI_SECTION_FREEFORM_SUBTYPE_GUID''), (0x19, ''EFI_SECTION_RAW''),
      (0x1b, ''EFI_SECTION_PEI_DEPEX''), (0x1c, ''EFI_SECTION_MM_DEPEX'')]"

definition SectionType_String :: "byte \<Rightarrow> string" where
  "SectionType_String t = (case map_of sectionTypeNames t of Some s \<Rightarrow> s | None \<Rightarrow> ''UNKNOWN'')"

text \<open>The section types of the first \<open>switch\<close> of \<open>NewSection\<close>.\<close>

definition recognized_section_type :: "byte \<Rightarrow> bool" where
  "recognized_section_type t =
     (t \<in> {0x00, 0x01, 0x02, 0x03, 0x10, 0x11, 0x12, 0x13, 0x14, 0x15, 0x16, 0x17, 0x18, 0x19,
            0x1b, 0x1c})"

definition is_DepEx_type :: "byte \<Rightarrow> bool" where
  "is_DepEx_type t = (t = SectionTypeDXEDepEx \<or> t = SectionTypePEIDepEx \<or> t = SectionMMDepEx)"

definition DepExOpCodes :: "byte \<Rightarrow> DepExOpCode option" where
  "DepExOpCodes b =
     map_of [(0x0, BEFORE), (0x1, AFTER), (0x2, PUSH), (0x3, AND_op), (0x4, OR_op), (0x5, NOT_op),
             (0x6, TRUE), (0x7, FALSE), (0x8, END), (0x9, SOR)] b"

subsection \<open>The tree\<close>

text \<open>
  \<open>NVarStore\<close> is built by \<open>NewNVarStore\<close>, which is not among the sources (the store is
  kept here as the bytes it owns); the packages
  \<open>unicode\<close> (\<open>UCS2ToUTF8\<close>, on top of an external library) and \<open>compression\<close> (the
  decoders) are external as well. They are fields of the environment \<open>parse_env\<close>,
  together with the global flag \<open>DisableDecompression\<close>. A compressor is its \<open>Name()\<close>
  and its \<open>Decode\<close>, which returns \<open>None\<close> for an error. The global \<open>ReadOnly\<close> only
  decides whether a buffer is shared or copied; the values are the same.
\<close>

datatype NVarStore = NVarStore (nv_buf: "byte list")

datatype Section = Section (s_info: SectionInfo) (s_Encapsulated: "Firmware list")
  and Firmware = FwSection Section | FwFirmwareVolume FirmwareVolume
  and FirmwareVolume = FirmwareVolume (fv_info: FVInfo) (fv_Files: "File list")
  and File = File (f_info: FileInfo) (f_Sections: "Section list") (f_NVarStore: "NVarStore option")

record parse_env =
  UCS2ToUTF8 :: "byte list \<Rightarrow> string"
  CompressorFromGUID :: "guid \<Rightarrow> (string \<times> (byte list \<Rightarrow> byte list option)) option"
  NewNVarStore :: "byte list \<Rightarrow> NVarStore option"
  DisableDecompression :: bool

text \<open>
  A parser returns an error or a value, and leaves the global erase polarity as the second
  component; \<open>None\<close> is a computation that has not finished within its fuel.
\<close>

type_synonym 'a result = "((uefi_error + 'a) \<times> byte option) option"

subsection \<open>parseDepEx\<close>

text \<open>
  The reader \<open>r\<close> is the list of bytes not yet read. An opcode byte outside the table
  is an error, as is a GUID cut short; reaching the end of the bytes before an \<open>END\<close>
  opcode is the error "no END".
\<close>

fun parseDepEx :: "byte list \<Rightarrow> uefi_error + DepExOp list" where
  "parseDepEx [] = Inl ErrDepExNoEnd"
| "parseDepEx (opCodeByte # r) =
     (case DepExOpCodes opCodeByte of
        None \<Rightarrow> Inl ErrDepExOpcode
      | Some opCodeStr \<Rightarrow>
          if opCodeStr = BEFORE \<or> opCodeStr = AFTER \<or> opCodeStr = PUSH then
            (if length r < 16 then Inl ErrDepExGUID
             else
               (case parseDepEx (drop 16 r) of
                  Inl e \<Rightarrow> Inl e
                | Inr depEx \<Rightarrow> Inr (\<lparr>op_OpCode = opCodeStr, op_GUID = Some (take 16 r)\<rparr> # depEx)))
          else if opCodeStr = END then Inr [\<lparr>op_OpCode = opCodeStr, op_GUID = None\<rparr>]
          else
            (case parseDepEx r of
               Inl e \<Rightarrow> Inl e
             | Inr depEx \<Rightarrow> Inr (\<lparr>op_OpCode = opCodeStr, op_GUID = None\<rparr> # depEx)))"

subsection \<open>NewSection: the common header and the sections without children\<close>

text \<open>
  \<open>NewSection_header\<close> is \<open>NewSection\<close> up to the point where \<open>s.buf\<close> is set: it reads
  the common header, settles \<open>ExtendedSize\<close> (first \<open>switch\<close>) and checks it against
  the buffer. It returns the section and \<open>headerSize\<close>.
\<close>

definition NewSection_header :: "byte list \<Rightarrow> nat \<Rightarrow> uefi_error + (SectionInfo \<times> nat)" where
  "NewSection_header buf fileOrder =
     (if length buf < 4 then Inl ErrEOF
      else
        let sz = (buf ! 0, buf ! 1, buf ! 2);
            t = buf ! 3;
            s = zero_SectionInfo\<lparr>s_FileOrder := fileOrder, s_Size := sz, s_Type := t,
                                  s_TypeName := SectionType_String t\<rparr>;
            sized =
              (if recognized_section_type t then
                 (if sz = (0xFF, 0xFF, 0xFF) then
                    (if length buf < 8 then Inl ErrEOF
                     else
                       let ext = (le_word (slice buf 4 8) :: uint32) in
                       if ext = 0xFFFFFFFF then Inl ErrSectionAllFF
                       else Inr (s\<lparr>s_ExtendedSize := ext\<rparr>, 8))
                  else Inr (s\<lparr>s_ExtendedSize := ucast (Read3Size sz)\<rparr>, 4))
               else
                 (let e = (ucast (Read3Size sz) :: uint32) in
                  Inr (s\<lparr>s_ExtendedSize := (if unat e > length buf then of_nat (length buf) else e)\<rparr>,
                       4)))
        in case sized of
             Inl e \<Rightarrow> Inl e
           | Inr (s1, headerSize) \<Rightarrow>
               if unat (s_ExtendedSize s1) > length buf then Inl ErrSectionSizeMismatch
               else Inr (s1\<lparr>s_buf := take (unat (s_ExtendedSize s1)) buf\<rparr>, headerSize))"

text \<open>
  The type-specific part for the user-interface, version and dependency-expression
  sections, and for the types that have none. A failure of \<open>parseDepEx\<close> is logged
  (\<open>log.Warnf\<close>) and leaves \<open>DepEx\<close> nil.
\<close>

definition NewSection_leaf :: "parse_env \<Rightarrow> SectionInfo \<Rightarrow> nat \<Rightarrow> uefi_error + SectionInfo" where
  "NewSection_leaf env s headerSize =
     (if s_Type s = SectionTypeUserInterface then
        (if length (s_buf s) \<le> headerSize then Inl ErrOversizeHdr
         else Inr (s\<lparr>s_Name := UCS2ToUTF8 env (drop headerSize (s_buf s))\<rparr>))
      else if s_Type s = SectionTypeVersion then
        (if length (s_buf s) \<le> headerSize + 2 then Inl ErrOversizeHdr
         else Inr (s\<lparr>s_BuildNumber := le_word (slice (s_buf s) headerSize (headerSize + 2)),
                     s_Version := UCS2ToUTF8 env (drop (headerSize + 2) (s_buf s))\<rparr>))
      else if is_DepEx_type (s_Type s) then
        (if length (s_buf s) \<le> headerSize then Inl ErrOversizeHdr
         else
           (case parseDepEx (drop headerSize (s_buf s)) of
              Inl e \<Rightarrow> Inr (s\<lparr>s_DepEx := []\<rparr>)
            | Inr depEx \<Rightarrow> Inr (s\<lparr>s_DepEx := depEx\<rparr>)))
      else Inr s)"

text \<open>
  The GUID-defined header is read from the reader over the whole of \<open>buf\<close>, after the
  common header; then the payload \<open>buf[DataOffset:]\<close> is decoded when the processing bit
  is set and a compressor is registered for the GUID. The result is the type-specific
  header and \<open>encapBuf\<close>.
\<close>

definition GUIDEDSectionProcessingRequired :: uint16 where
  "GUIDEDSectionProcessingRequired = 0x01"

definition NewSection_guided ::
  "parse_env \<Rightarrow> byte list \<Rightarrow> nat \<Rightarrow> uefi_error + (SectionGUIDDefined \<times> byte list)" where
  "NewSection_guided env buf headerSize =
     (if length buf < headerSize + 20 then Inl ErrEOF
      else
        let typeSpec = \<lparr>gd_GUID = slice buf headerSize (headerSize + 16),
                        gd_DataOffset = le_word (slice buf (headerSize + 16) (headerSize + 18)),
                        gd_Attributes = le_word (slice buf (headerSize + 18) (headerSize + 20)),
                        gd_Compression = []\<rparr>
        in if gd_Attributes typeSpec AND GUIDEDSectionProcessingRequired \<noteq> 0 \<and>
              \<not> DisableDecompression env then
             (case CompressorFromGUID env (gd_GUID typeSpec) of
                Some (name, decode) \<Rightarrow>
                  if length buf < unat (gd_DataOffset typeSpec) then Inl ErrPanic
                  else
                    (case decode (drop (unat (gd_DataOffset typeSpec)) buf) of
                       Some encapBuf \<Rightarrow> Inr (typeSpec\<lparr>gd_Compression := name\<rparr>, encapBuf)
                     | None \<Rightarrow> Inr (typeSpec\<lparr>gd_Compression := ''UNKNOWN''\<rparr>, []))
              | None \<Rightarrow> Inr (typeSpec\<lparr>gd_Compression := ''UNKNOWN''\<rparr>, []))
           else Inr (typeSpec, []))"

subsection \<open>NewFile: the header\<close>

text \<open>
  \<open>NewFile_header\<close> is \<open>NewFile\<close> up to the section loop. \<open>Inr None\<close> is the return
  \<open>nil, nil\<close> at the start of free space.
\<close>

definition NewFile_header ::
  "parse_env \<Rightarrow> byte list \<Rightarrow> uefi_error + (FileInfo \<times> NVarStore option) option" where
  "NewFile_header env buf =
     (if length buf < FileHeaderMinLength then Inl ErrEOF
      else
        let f = zero_FileInfo\<lparr>f_DataOffset := of_nat FileHeaderMinLength,
                  f_GUID := take 16 buf, f_Checksum_Header := buf ! 16,
                  f_Checksum_File := buf ! 17, f_Type := buf ! 18, f_Attributes := buf ! 19,
                  f_Size := (buf ! 20, buf ! 21, buf ! 22), f_State := buf ! 23,
                  f_TypeName := FVFileType_String (buf ! 18)\<rparr>;
            sized =
              (if f_Size f = (0xFF, 0xFF, 0xFF) then
                 (if length buf < 32 then Inl ErrEOF
                  else
                    let ext = (le_word (slice buf 24 32) :: uint64) in
                    if ext = 0xFFFFFFFFFFFFFFFF then Inr None
                    else Inr (Some (f\<lparr>f_ExtendedSize := ext,
                                       f_DataOffset := of_nat FileHeaderExtMinLength\<rparr>)))
               else Inr (Some (f\<lparr>f_ExtendedSize := Read3Size (f_Size f)\<rparr>)))
        in case sized of
             Inl e \<Rightarrow> Inl e
           | Inr None \<Rightarrow> Inr None
           | Inr (Some f1) \<Rightarrow>
               if f_ExtendedSize f1 > of_nat (length buf) then Inl ErrFileTooBig
               else
                 let f2 = f1\<lparr>f_buf := take (unat (f_ExtendedSize f1)) buf\<rparr> in
                 if f_Type f2 = FVFileTypeRaw \<and> f_GUID f2 = NVAR then
                   (if f_DataOffset f2 \<ge> of_nat (length (f_buf f2)) then Inl ErrNVarDataOffset
                    else Inr (Some (f2, NewNVarStore env (drop (unat (f_DataOffset f2)) (f_buf f2)))))
                 else Inr (Some (f2, None)))"

subsection \<open>NewFirmwareVolume: the headers\<close>

fun read_blocks :: "byte list \<Rightarrow> uefi_error + Block list" where
  "read_blocks (b0 # b1 # b2 # b3 # b4 # b5 # b6 # b7 # r) =
     (let block = \<lparr>blk_Count = le_word [b0, b1, b2, b3], blk_Size = le_word [b4, b5, b6, b7]\<rparr> in
      if blk_Count block = 0 \<and> blk_Size block = 0 then Inr []
      else (case read_blocks r of Inl e \<Rightarrow> Inl e | Inr blocks \<Rightarrow> Inr (block # blocks)))"
| "read_blocks r = Inl ErrEOF"

definition FirmwareVolumeFixedHeaderSize :: nat where
  "FirmwareVolumeFixedHeaderSize = 56"

definition FirmwareVolumeMinSize :: nat where
  "FirmwareVolumeMinSize = FirmwareVolumeFixedHeaderSize + 8"

definition FirmwareVolumeExtHeaderMinSize :: nat where
  "FirmwareVolumeExtHeaderMinSize = 20"

definition GetErasePolarity :: "FVInfo \<Rightarrow> byte" where
  "GetErasePolarity fv = (if fv_Attributes fv AND 0x800 \<noteq> 0 then 0xFF else 0)"

definition FVGUIDs_lookup :: "guid \<Rightarrow> string" where
  "FVGUIDs_lookup g = (case map_of FVGUIDs g of Some s \<Rightarrow> s | None \<Rightarrow> [])"

text \<open>
  \<open>NewFirmwareVolume_header\<close> is \<open>NewFirmwareVolume\<close> up to the test of \<open>supportedFVs\<close>:
  the fixed header (\<open>read_fixed_header\<close>), the block map, the erase polarity (a global,
  threaded through), the bound on \<open>Length\<close>, the extended header and \<open>DataOffset\<close>
  (\<open>ext_header_step\<close>), and the type name, offset and buffer.
\<close>

definition read_fixed_header :: "byte list \<Rightarrow> bool \<Rightarrow> FVInfo" where
  "read_fixed_header data resizable =
     zero_FVInfo\<lparr>fv_Resizable := resizable,
       fv_FileSystemGUID := slice data 16 32,
       fv_Length := le_word (slice data 32 40),
       fv_Signature := le_word (slice data 40 44),
       fv_Attributes := le_word (slice data 44 48),
       fv_HeaderLen := le_word (slice data 48 50),
       fv_Checksum := le_word (slice data 50 52),
       fv_ExtHeaderOffset := le_word (slice data 52 54),
       fv_Reserved := data ! 54, fv_Revision := data ! 55\<rparr>"

definition ext_header_step :: "byte list \<Rightarrow> FVInfo \<Rightarrow> uefi_error + FVInfo" where
  "ext_header_step data fv =
     (let fv2 = fv\<lparr>fv_DataOffset := ucast (fv_HeaderLen fv)\<rparr>;
          ext =
            (if fv_ExtHeaderOffset fv2 \<noteq> 0 \<and>
                fv_Length fv2 \<ge> of_nat FirmwareVolumeExtHeaderMinSize \<and>
                (ucast (fv_ExtHeaderOffset fv2) :: uint64) <
                  fv_Length fv2 - of_nat FirmwareVolumeExtHeaderMinSize then
               (let r = drop (unat (fv_ExtHeaderOffset fv2)) data in
                if length r < 20 then Inl ErrFVExtHeader
                else
                  let fv3 = fv2\<lparr>fv_FVName := take 16 r,
                                  fv_ExtHeaderSize := le_word (slice r 16 20)\<rparr>
                  in Inr (fv3\<lparr>fv_DataOffset :=
                                  ucast (fv_ExtHeaderOffset fv3) + ucast (fv_ExtHeaderSize fv3)\<rparr>))
             else Inr fv2)
      in case ext of
           Inl e \<Rightarrow> Inl e
         | Inr fv4 \<Rightarrow> Inr (fv4\<lparr>fv_DataOffset := Align8 (fv_DataOffset fv4)\<rparr>))"

definition NewFirmwareVolume_header ::
  "byte list \<Rightarrow> uint64 \<Rightarrow> bool \<Rightarrow> byte option \<Rightarrow> (uefi_error + FVInfo) \<times> byte option" where
  "NewFirmwareVolume_header data fvOffset resizable st =
     (if length data < FirmwareVolumeMinSize then (Inl ErrFVTooSmall, st)
      else
        let fv = read_fixed_header data resizable in
        case read_blocks (drop FirmwareVolumeFixedHeaderSize data) of
          Inl e \<Rightarrow> (Inl e, st)
        | Inr blocks \<Rightarrow>
            let fv1 = fv\<lparr>fv_Blocks := blocks\<rparr> in
            (case SetErasePolarity (GetErasePolarity fv1) st of
               (Some e, st1) \<Rightarrow> (Inl e, st1)
             | (None, st1) \<Rightarrow>
                 if fv_Length fv1 > of_nat (length data) then (Inl ErrFVLength, st1)
                 else
                   (case ext_header_step data fv1 of
                      Inl e \<Rightarrow> (Inl e, st1)
                    | Inr fv4 \<Rightarrow>
                        (Inr (fv4\<lparr>fv_FVType := FVGUIDs_lookup (fv_FileSystemGUID fv4),
                                   fv_FVOffset := fvOffset,
                                   fv_buf := take (unat (fv_Length fv4)) data\<rparr>),
                         st1))))"

subsection \<open>The recursion\<close>

text \<open>
  \<open>NewSection\<close>, \<open>NewFirmwareVolume\<close> and \<open>NewFile\<close> call each other, and each has a
  loop over its children: the loop over the decoded payload of a GUID-defined section
  (\<open>encap_loop\<close>), the loop over the files of a volume (\<open>fv_file_loop\<close>, with the files
  read so far) and the loop over the sections of a file (\<open>file_section_loop\<close>). The
  first argument is fuel: every call and every iteration takes one unit, and \<open>None\<close>
  is returned when it runs out.
\<close>

function NewSection :: "nat \<Rightarrow> parse_env \<Rightarrow> byte option \<Rightarrow> byte list \<Rightarrow> nat \<Rightarrow> Section result"
  and encap_loop ::
    "nat \<Rightarrow> parse_env \<Rightarrow> byte option \<Rightarrow> byte list \<Rightarrow> nat \<Rightarrow> uint64 \<Rightarrow> (Firmware list) result"
  and NewFirmwareVolume ::
    "nat \<Rightarrow> parse_env \<Rightarrow> byte option \<Rightarrow> byte list \<Rightarrow> uint64 \<Rightarrow> bool \<Rightarrow> FirmwareVolume result"
  and fv_file_loop ::
    "nat \<Rightarrow> parse_env \<Rightarrow> byte option \<Rightarrow> byte list \<Rightarrow> uint64 \<Rightarrow> uint64 \<Rightarrow> File list \<Rightarrow>
       (File list \<times> uint64) result"
  and NewFile :: "nat \<Rightarrow> parse_env \<Rightarrow> byte option \<Rightarrow> byte list \<Rightarrow> (File option) result"
  and file_section_loop ::
    "nat \<Rightarrow> parse_env \<Rightarrow> byte option \<Rightarrow> FileInfo \<Rightarrow> nat \<Rightarrow> uint64 \<Rightarrow> (Section list) result"
  where
  "NewSection 0 env st buf fileOrder = None"
| "NewSection (Suc n) env st buf fileOrder =
     (case NewSection_header buf fileOrder of
        Inl e \<Rightarrow> Some (Inl e, st)
      | Inr (s, headerSize) \<Rightarrow>
          if s_Type s = SectionTypeGUIDDefined then
            (case NewSection_guided env buf headerSize of
               Inl e \<Rightarrow> Some (Inl e, st)
             | Inr (typeSpec, encapBuf) \<Rightarrow>
                 (case encap_loop n env st encapBuf 0 0 of
                    None \<Rightarrow> None
                  | Some (Inl e, st1) \<Rightarrow> Some (Inl e, st1)
                  | Some (Inr encapsulated, st1) \<Rightarrow>
                      Some (Inr (Section (s\<lparr>s_TypeSpecific := Some typeSpec\<rparr>) encapsulated), st1)))
          else if s_Type s = SectionTypeFirmwareVolumeImage then
            (if length (s_buf s) \<le> headerSize then Some (Inl ErrOversizeHdr, st)
             else
               (case NewFirmwareVolume n env st (drop headerSize (s_buf s)) 0 True of
                  None \<Rightarrow> None
                | Some (Inl e, st1) \<Rightarrow> Some (Inl e, st1)
                | Some (Inr fv, st1) \<Rightarrow> Some (Inr (Section s [FwFirmwareVolume fv]), st1)))
          else
            (case NewSection_leaf env s headerSize of
               Inl e \<Rightarrow> Some (Inl e, st)
             | Inr s1 \<Rightarrow> Some (Inr (Section s1 []), st)))"
| "encap_loop 0 env st encapBuf i offset = None"
| "encap_loop (Suc n) env st encapBuf i offset =
     (if offset < of_nat (length encapBuf) then
        (case NewSection n env st (drop (unat offset) encapBuf) i of
           None \<Rightarrow> None
         | Some (Inl e, st1) \<Rightarrow> Some (Inl ErrEncapsulatedSection, st1)
         | Some (Inr encapS, st1) \<Rightarrow>
             (case encap_loop n env st1 encapBuf (i + 1)
                     (Align4 (offset + ucast (s_ExtendedSize (s_info encapS)))) of
                None \<Rightarrow> None
              | Some (Inl e, st2) \<Rightarrow> Some (Inl e, st2)
              | Some (Inr rest, st2) \<Rightarrow> Some (Inr (FwSection encapS # rest), st2)))
      else Some (Inr [], st))"
| "NewFirmwareVolume 0 env st data fvOffset resizable = None"
| "NewFirmwareVolume (Suc n) env st data fvOffset resizable =
     (case NewFirmwareVolume_header data fvOffset resizable st of
        (Inl e, st1) \<Rightarrow> Some (Inl e, st1)
      | (Inr fv, st1) \<Rightarrow>
          if \<not> supportedFVs (fv_FileSystemGUID fv) then Some (Inr (FirmwareVolume fv []), st1)
          else
            (case fv_file_loop n env st1 data (fv_Length fv) (fv_DataOffset fv) [] of
               None \<Rightarrow> None
             | Some (Inl e, st2) \<Rightarrow> Some (Inl e, st2)
             | Some (Inr (files, freeSpace), st2) \<Rightarrow>
                 Some (Inr (FirmwareVolume (fv\<lparr>fv_FreeSpace := freeSpace\<rparr>) files), st2)))"
| "fv_file_loop 0 env st data Length offset files = None"
| "fv_file_loop (Suc n) env st data Length offset files =
     (if offset < Length - of_nat FileHeaderMinLength then
        (let offset1 = Align8 offset in
         if of_nat (length data) \<le> offset1 then Some (Inl ErrOffsetBeyondFV, st)
         else
           (case NewFile n env st (drop (unat offset1) data) of
              None \<Rightarrow> None
            | Some (Inl e, st1) \<Rightarrow> Some (Inl ErrFileConstruct, st1)
            | Some (Inr None, st1) \<Rightarrow> Some (Inr (files, Length - offset1), st1)
            | Some (Inr (Some file), st1) \<Rightarrow>
                (let prevLen = f_ExtendedSize (f_info file) in
                 if prevLen = 0 then Some (Inl ErrFileLengthZero, st1)
                 else fv_file_loop n env st1 data Length (offset1 + prevLen) (files @ [file]))))
      else Some (Inr (files, 0), st))"
| "NewFile 0 env st buf = None"
| "NewFile (Suc n) env st buf =
     (case NewFile_header env buf of
        Inl e \<Rightarrow> Some (Inl e, st)
      | Inr None \<Rightarrow> Some (Inr None, st)
      | Inr (Some (f, nvarStore)) \<Rightarrow>
          if \<not> SupportedFiles (f_Type f) then Some (Inr (Some (File f [] nvarStore)), st)
          else
            (case file_section_loop n env st f 0 (f_DataOffset f) of
               None \<Rightarrow> None
             | Some (Inl e, st1) \<Rightarrow> Some (Inl e, st1)
             | Some (Inr sections, st1) \<Rightarrow> Some (Inr (Some (File f sections nvarStore)), st1)))"
| "file_section_loop 0 env st f i offset = None"
| "file_section_loop (Suc n) env st f i offset =
     (if offset < f_ExtendedSize f then
        (case NewSection n env st (drop (unat offset) (f_buf f)) i of
           None \<Rightarrow> None
         | Some (Inl e, st1) \<Rightarrow> Some (Inl ErrFileSections, st1)
         | Some (Inr s, st1) \<Rightarrow>
             if s_ExtendedSize (s_info s) = 0 then Some (Inl ErrSectionLengthZero, st1)
             else
               (case file_section_loop n env st1 f (i + 1)
                       (Align4 (offset + ucast (s_ExtendedSize (s_info s)))) of
                  None \<Rightarrow> None
                | Some (Inl e, st2) \<Rightarrow> Some (Inl e, st2)
                | Some (Inr rest, st2) \<Rightarrow> Some (Inr (s # rest), st2)))
      else Some (Inr [], st))"
  by pat_completeness
    (simp_all only: sum.inject sum.distinct prod.inject nat.inject nat.distinct simp_thms)
termination
  by (relation "measure (\<lambda>x. case x of
        Inl (Inl a) \<Rightarrow> fst a
      | Inl (Inr (Inl a)) \<Rightarrow> fst a
      | Inl (Inr (Inr a)) \<Rightarrow> fst a
      | Inr (Inl a) \<Rightarrow> fst a
      | Inr (Inr (Inl a)) \<Rightarrow> fst a
      | Inr (Inr (Inr a)) \<Rightarrow> fst a)")
    (simp_all only: wf_measure in_measure sum.case fst_conv lessI)

declare NewSection.simps [simp del] encap_loop.simps [simp del]
  NewFirmwareVolume.simps [simp del] fv_file_loop.simps [simp del]
  NewFile.simps [simp del] file_section_loop.simps [simp del]

text \<open>An environment without compressors and without an NVAR decoder.\<close>

definition env0 :: parse_env where
  "env0 = \<lparr>UCS2ToUTF8 = (\<lambda>b. []), CompressorFromGUID = (\<lambda>g. None),
            NewNVarStore = (\<lambda>b. None), DisableDecompression = False\<rparr>"

section \<open>Properties of NewSection\<close>

lemma le_word3_bits:
  "take_bit 24 (le_word [a, b, c] :: uint64) = le_word [a, b, c]"
  by (rule bit_word_eqI) (auto simp add: le_word_def bit_simps dest: bit_imp_le_length)

lemma Read3Size_less: "unat (Read3Size sz) < 2 ^ 24"
proof -
  obtain a b c where sz: "sz = (a, b, c)" by (cases sz) auto
  have "take_bit 24 (Read3Size sz) = Read3Size sz"
    by (simp add: sz Read3Size_def le_word3_bits)
  then have "unat (Read3Size sz) = take_bit 24 (unat (Read3Size sz))"
    by (metis unsigned_take_bit_eq)
  then show ?thesis by (metis take_bit_nat_less_exp)
qed

lemma unat_ucast_Read3Size: "unat (ucast (Read3Size sz) :: uint32) = unat (Read3Size sz)"
proof -
  have "unat (Read3Size sz) < 2 ^ 32"
    using Read3Size_less [of sz] by simp
  then show ?thesis by (simp add: unsigned_ucast_eq take_bit_nat_eq_self)
qed

lemma unat_of_nat_len32:
  assumes "n < 2 ^ 24"
  shows "unat (of_nat n :: uint32) = n"
proof -
  have "n < 2 ^ LENGTH(32)" using assms by simp
  then show ?thesis by (rule of_nat_inverse [OF refl])
qed

lemma recognized_types:
  "recognized_section_type SectionTypeGUIDDefined"
  "recognized_section_type SectionTypeFirmwareVolumeImage"
  "recognized_section_type SectionTypeUserInterface"
  "recognized_section_type SectionTypeVersion"
  "is_DepEx_type t \<Longrightarrow> recognized_section_type t"
  by (auto simp: recognized_section_type_def SectionTypeGUIDDefined_def
      SectionTypeFirmwareVolumeImage_def SectionTypeUserInterface_def SectionTypeVersion_def
      is_DepEx_type_def SectionTypeDXEDepEx_def SectionTypePEIDepEx_def SectionMMDepEx_def)

lemma NewSection_header_clamp:
  assumes "4 \<le> length buf" "\<not> recognized_section_type (buf ! 3)"
    and "length buf < unat (Read3Size (buf ! 0, buf ! 1, buf ! 2))"
  shows "\<exists>s. NewSection_header buf i = Inr (s, 4) \<and> s_ExtendedSize s = of_nat (length buf) \<and>
           s_buf s = buf \<and> s_Type s = buf ! 3"
proof -
  let ?sz = "(buf ! 0, buf ! 1, buf ! 2)"
  have l: "length buf < 2 ^ 24" using assms(3) Read3Size_less [of ?sz] by simp
  have u: "unat (of_nat (length buf) :: uint32) = length buf"
    using l by (rule unat_of_nat_len32)
  show ?thesis
    using assms u by (simp add: NewSection_header_def Let_def unat_ucast_Read3Size)
qed

lemma NewSection_unrecognized:
  assumes "NewSection_header buf i = Inr (s, hs)" "\<not> recognized_section_type (s_Type s)"
  shows "NewSection (Suc n) env st buf i = Some (Inr (Section s []), st)"
proof -
  have a: "s_Type s \<noteq> SectionTypeGUIDDefined" "s_Type s \<noteq> SectionTypeFirmwareVolumeImage"
    "s_Type s \<noteq> SectionTypeUserInterface" "s_Type s \<noteq> SectionTypeVersion"
    "\<not> is_DepEx_type (s_Type s)"
    using assms(2) recognized_types by auto
  show ?thesis
    using assms(1) a by (simp add: NewSection.simps NewSection_leaf_def)
qed

lemma NewSection_header_error:
  "NewSection_header buf i = Inl e \<Longrightarrow> NewSection (Suc n) env st buf i = Some (Inl e, st)"
  by (simp add: NewSection.simps)

lemma NewSection_header_mismatch3:
  assumes "4 \<le> length buf" "recognized_section_type (buf ! 3)"
    and "(buf ! 0, buf ! 1, buf ! 2) \<noteq> (0xFF, 0xFF, 0xFF)"
    and "length buf < unat (Read3Size (buf ! 0, buf ! 1, buf ! 2))"
  shows "NewSection_header buf i = Inl ErrSectionSizeMismatch"
  using assms by (simp add: NewSection_header_def Let_def unat_ucast_Read3Size)

lemma NewSection_header_mismatch_ext:
  assumes "8 \<le> length buf" "recognized_section_type (buf ! 3)"
    and "(buf ! 0, buf ! 1, buf ! 2) = (0xFF, 0xFF, 0xFF)"
    and "(le_word (slice buf 4 8) :: uint32) \<noteq> 0xFFFFFFFF"
    and "length buf < unat (le_word (slice buf 4 8) :: uint32)"
  shows "NewSection_header buf i = Inl ErrSectionSizeMismatch"
  using assms by (simp add: NewSection_header_def Let_def)

lemma NewSection_header_allFF:
  assumes "8 \<le> length buf" "recognized_section_type (buf ! 3)"
    and "(buf ! 0, buf ! 1, buf ! 2) = (0xFF, 0xFF, 0xFF)"
    and "(le_word (slice buf 4 8) :: uint32) = 0xFFFFFFFF"
  shows "NewSection_header buf i = Inl ErrSectionAllFF"
  using assms by (simp add: NewSection_header_def Let_def)

text \<open>
  Claim C6. For a section type outside the recognized ones, a three-byte size beyond the
  buffer is clamped to the length of the buffer and the section is returned. For a
  recognized type, a size beyond the buffer (the three-byte size, or the 32-bit extended
  size when the three bytes are all \<open>0xFF\<close>) is the size-mismatch error, and an extended
  size of \<open>0xFFFFFFFF\<close> is an error too.
\<close>

theorem NewSection_oversize:
  assumes "4 \<le> length buf"
  shows "(\<not> recognized_section_type (buf ! 3) \<and>
            length buf < unat (Read3Size (buf ! 0, buf ! 1, buf ! 2)) \<longrightarrow>
          (\<exists>s. NewSection (Suc n) env st buf i = Some (Inr (Section s []), st) \<and>
               s_ExtendedSize s = of_nat (length buf) \<and> s_buf s = buf)) \<and>
         (recognized_section_type (buf ! 3) \<and> (buf ! 0, buf ! 1, buf ! 2) \<noteq> (0xFF, 0xFF, 0xFF) \<and>
            length buf < unat (Read3Size (buf ! 0, buf ! 1, buf ! 2)) \<longrightarrow>
          NewSection (Suc n) env st buf i = Some (Inl ErrSectionSizeMismatch, st)) \<and>
         (recognized_section_type (buf ! 3) \<and> (buf ! 0, buf ! 1, buf ! 2) = (0xFF, 0xFF, 0xFF) \<and>
            8 \<le> length buf \<and> (le_word (slice buf 4 8) :: uint32) \<noteq> 0xFFFFFFFF \<and>
            length buf < unat (le_word (slice buf 4 8) :: uint32) \<longrightarrow>
          NewSection (Suc n) env st buf i = Some (Inl ErrSectionSizeMismatch, st)) \<and>
         (recognized_section_type (buf ! 3) \<and> (buf ! 0, buf ! 1, buf ! 2) = (0xFF, 0xFF, 0xFF) \<and>
            8 \<le> length buf \<and> (le_word (slice buf 4 8) :: uint32) = 0xFFFFFFFF \<longrightarrow>
          NewSection (Suc n) env st buf i = Some (Inl ErrSectionAllFF, st))"
proof (intro conjI impI)
  assume a: "\<not> recognized_section_type (buf ! 3) \<and>
      length buf < unat (Read3Size (buf ! 0, buf ! 1, buf ! 2))"
  then obtain s where s: "NewSection_header buf i = Inr (s, 4)"
    "s_ExtendedSize s = of_nat (length buf)" "s_buf s = buf" "s_Type s = buf ! 3"
    using NewSection_header_clamp [OF assms, of i] by blast
  have "NewSection (Suc n) env st buf i = Some (Inr (Section s []), st)"
    by (rule NewSection_unrecognized [OF s(1)]) (use a s(4) in simp)
  then show "\<exists>s. NewSection (Suc n) env st buf i = Some (Inr (Section s []), st) \<and>
      s_ExtendedSize s = of_nat (length buf) \<and> s_buf s = buf"
    using s by blast
next
  assume "recognized_section_type (buf ! 3) \<and> (buf ! 0, buf ! 1, buf ! 2) \<noteq> (0xFF, 0xFF, 0xFF) \<and>
      length buf < unat (Read3Size (buf ! 0, buf ! 1, buf ! 2))"
  then have "NewSection_header buf i = Inl ErrSectionSizeMismatch"
    using NewSection_header_mismatch3 [OF assms] by blast
  then show "NewSection (Suc n) env st buf i = Some (Inl ErrSectionSizeMismatch, st)"
    by (rule NewSection_header_error)
next
  assume "recognized_section_type (buf ! 3) \<and> (buf ! 0, buf ! 1, buf ! 2) = (0xFF, 0xFF, 0xFF) \<and>
      8 \<le> length buf \<and> (le_word (slice buf 4 8) :: uint32) \<noteq> 0xFFFFFFFF \<and>
      length buf < unat (le_word (slice buf 4 8) :: uint32)"
  then have "NewSection_header buf i = Inl ErrSectionSizeMismatch"
    using NewSection_header_mismatch_ext by blast
  then show "NewSection (Suc n) env st buf i = Some (Inl ErrSectionSizeMismatch, st)"
    by (rule NewSection_header_error)
next
  assume "recognized_section_type (buf ! 3) \<and> (buf ! 0, buf ! 1, buf ! 2) = (0xFF, 0xFF, 0xFF) \<and>
      8 \<le> length buf \<and> (le_word (slice buf 4 8) :: uint32) = 0xFFFFFFFF"
  then have "NewSection_header buf i = Inl ErrSectionAllFF"
    using NewSection_header_allFF by blast
  then show "NewSection (Suc n) env st buf i = Some (Inl ErrSectionAllFF, st)"
    by (rule NewSection_header_error)
qed

theorem NewSection_oversize_witness:
  "(\<exists>s. NewSection 1 env0 None [0x10, 0x00, 0x00, 0x42, 0xAA] 0 = Some (Inr (Section s []), None) \<and>
        s_ExtendedSize s = 5 \<and> s_buf s = [0x10, 0x00, 0x00, 0x42, 0xAA]) \<and>
   NewSection 1 env0 None [0x10, 0x00, 0x00, 0x19, 0xAA] 0 = Some (Inl ErrSectionSizeMismatch, None) \<and>
   NewSection 1 env0 None [0xFF, 0xFF, 0xFF, 0x19, 0x00, 0x01, 0x00, 0x00] 0 =
     Some (Inl ErrSectionSizeMismatch, None) \<and>
   NewSection 1 env0 None [0xFF, 0xFF, 0xFF, 0x19, 0xFF, 0xFF, 0xFF, 0xFF] 0 =
     Some (Inl ErrSectionAllFF, None)"
proof -
  let ?a = "[0x10, 0x00, 0x00, 0x42, 0xAA] :: byte list"
  let ?b = "[0x10, 0x00, 0x00, 0x19, 0xAA] :: byte list"
  let ?c = "[0xFF, 0xFF, 0xFF, 0x19, 0x00, 0x01, 0x00, 0x00] :: byte list"
  let ?d = "[0xFF, 0xFF, 0xFF, 0x19, 0xFF, 0xFF, 0xFF, 0xFF] :: byte list"
  have r16: "unat (Read3Size (0x10, 0x00, 0x00)) = 16"
    by (simp add: Read3Size_def le_word_def)
  have ec: "(le_word (slice ?c 4 8) :: uint32) = 256" by (simp add: le_word_def slice_def)
  have ed: "(le_word (slice ?d 4 8) :: uint32) = 0xFFFFFFFF" by (simp add: le_word_def slice_def)
  have ha: "\<not> recognized_section_type (?a ! 3) \<and>
      length ?a < unat (Read3Size (?a ! 0, ?a ! 1, ?a ! 2))"
    by (simp add: recognized_section_type_def r16)
  have hb: "recognized_section_type (?b ! 3) \<and> (?b ! 0, ?b ! 1, ?b ! 2) \<noteq> (0xFF, 0xFF, 0xFF) \<and>
      length ?b < unat (Read3Size (?b ! 0, ?b ! 1, ?b ! 2))"
    by (simp add: recognized_section_type_def r16)
  have hc: "recognized_section_type (?c ! 3) \<and> (?c ! 0, ?c ! 1, ?c ! 2) = (0xFF, 0xFF, 0xFF) \<and>
      8 \<le> length ?c \<and> (le_word (slice ?c 4 8) :: uint32) \<noteq> 0xFFFFFFFF \<and>
      length ?c < unat (le_word (slice ?c 4 8) :: uint32)"
    unfolding ec by (simp add: recognized_section_type_def)
  have hd: "recognized_section_type (?d ! 3) \<and> (?d ! 0, ?d ! 1, ?d ! 2) = (0xFF, 0xFF, 0xFF) \<and>
      8 \<le> length ?d \<and> (le_word (slice ?d 4 8) :: uint32) = 0xFFFFFFFF"
    unfolding ed by (simp add: recognized_section_type_def)
  have a: "\<exists>s. NewSection (Suc 0) env0 None ?a 0 = Some (Inr (Section s []), None) \<and>
      s_ExtendedSize s = of_nat (length ?a) \<and> s_buf s = ?a"
    using NewSection_oversize [of ?a 0 env0 None 0] ha by simp
  have b: "NewSection (Suc 0) env0 None ?b 0 = Some (Inl ErrSectionSizeMismatch, None)"
    using NewSection_oversize [of ?b 0 env0 None 0] hb by simp
  have c: "NewSection (Suc 0) env0 None ?c 0 = Some (Inl ErrSectionSizeMismatch, None)"
    using NewSection_oversize [of ?c 0 env0 None 0] hc by simp
  have d: "NewSection (Suc 0) env0 None ?d 0 = Some (Inl ErrSectionAllFF, None)"
    using NewSection_oversize [of ?d 0 env0 None 0] hd by simp
  show ?thesis using a b c d by simp
qed

section \<open>Dependency-expression sections\<close>

lemma DepExOpCodes_END: "DepExOpCodes b = Some END \<Longrightarrow> b = 0x08"
  by (simp add: DepExOpCodes_def split: if_splits)

lemma parseDepEx_ends:
  "parseDepEx b = Inr ops \<Longrightarrow> ops \<noteq> [] \<and> op_OpCode (last ops) = END"
proof (induction b arbitrary: ops rule: parseDepEx.induct)
  case 1
  then show ?case by simp
next
  case (2 opCodeByte r)
  from "2.prems" obtain opc where opc: "DepExOpCodes opCodeByte = Some opc"
    by (auto split: option.splits)
  show ?case
  proof (cases "opc = BEFORE \<or> opc = AFTER \<or> opc = PUSH")
    case True
    with "2.prems" opc obtain depEx where d: "parseDepEx (drop 16 r) = Inr depEx"
      and ops: "ops = \<lparr>op_OpCode = opc, op_GUID = Some (take 16 r)\<rparr> # depEx"
      and len: "\<not> length r < 16"
      by (auto split: if_splits sum.splits)
    from "2.IH"(1) [OF opc True len d] show ?thesis by (simp add: ops)
  next
    case False
    show ?thesis
    proof (cases "opc = END")
      case True
      with "2.prems" opc False show ?thesis by auto
    next
      case notEnd: False
      with "2.prems" opc False obtain depEx where d: "parseDepEx r = Inr depEx"
        and ops: "ops = \<lparr>op_OpCode = opc, op_GUID = None\<rparr> # depEx"
        by (auto split: if_splits sum.splits)
      from "2.IH"(2) [OF opc False notEnd d] show ?thesis by (simp add: ops)
    qed
  qed
qed

lemma parseDepEx_without_END:
  "0x08 \<notin> set b \<Longrightarrow> \<exists>e. parseDepEx b = Inl e"
proof (induction b rule: parseDepEx.induct)
  case 1
  then show ?case by simp
next
  case (2 opCodeByte r)
  show ?case
  proof (cases "DepExOpCodes opCodeByte")
    case None
    then show ?thesis by simp
  next
    case (Some opc)
    have ne: "opc \<noteq> END" using Some "2.prems" DepExOpCodes_END by auto
    show ?thesis
    proof (cases "opc = BEFORE \<or> opc = AFTER \<or> opc = PUSH")
      case True
      show ?thesis
      proof (cases "length r < 16")
        case True
        then show ?thesis using Some \<open>opc = BEFORE \<or> opc = AFTER \<or> opc = PUSH\<close> by auto
      next
        case False
        have "0x08 \<notin> set (drop 16 r)" using "2.prems" by (auto dest: in_set_dropD)
        from "2.IH"(1) [OF Some True False this] show ?thesis
          using Some True False by auto
      qed
    next
      case False
      have "0x08 \<notin> set r" using "2.prems" by simp
      from "2.IH"(2) [OF Some False ne this] show ?thesis
        using Some False ne by auto
    qed
  qed
qed

lemma NewSection_DepEx:
  assumes "NewSection_header buf i = Inr (s, hs)" "is_DepEx_type (s_Type s)"
  shows "NewSection (Suc n) env st buf i =
           (if length (s_buf s) \<le> hs then Some (Inl ErrOversizeHdr, st)
            else Some (Inr (Section
                   (s\<lparr>s_DepEx := (case parseDepEx (drop hs (s_buf s)) of
                                     Inl e \<Rightarrow> [] | Inr depEx \<Rightarrow> depEx)\<rparr>) []), st))"
proof -
  have a: "s_Type s \<noteq> SectionTypeGUIDDefined" "s_Type s \<noteq> SectionTypeFirmwareVolumeImage"
    "s_Type s \<noteq> SectionTypeUserInterface" "s_Type s \<noteq> SectionTypeVersion"
    using assms(2)
    by (auto simp: is_DepEx_type_def SectionTypeDXEDepEx_def SectionTypePEIDepEx_def
        SectionMMDepEx_def SectionTypeGUIDDefined_def SectionTypeFirmwareVolumeImage_def
        SectionTypeUserInterface_def SectionTypeVersion_def)
  show ?thesis
    using assms a by (simp add: NewSection.simps NewSection_leaf_def split: sum.splits)
qed

text \<open>
  Claim C3, as the code has it. For a dependency-expression section (types \<open>0x13\<close>,
  \<open>0x1b\<close>, \<open>0x1c\<close>) with a well-formed header and a body that is not empty:
  \<open>parseDepEx\<close> returns an error for every opcode stream without an \<open>END\<close> opcode, and
  what it returns without error ends with \<open>END\<close>; but \<open>NewSection\<close> only logs that
  error: it returns the section, with no \<open>DepEx\<close> operations, and no error.
\<close>

theorem NewSection_DepEx_missing_END:
  assumes "NewSection_header buf i = Inr (s, hs)" "is_DepEx_type (s_Type s)"
    and "hs < length (s_buf s)"
  shows "(0x08 \<notin> set (drop hs (s_buf s)) \<longrightarrow> (\<exists>e. parseDepEx (drop hs (s_buf s)) = Inl e)) \<and>
         (\<forall>ops. parseDepEx (drop hs (s_buf s)) = Inr ops \<longrightarrow>
                ops \<noteq> [] \<and> op_OpCode (last ops) = END) \<and>
         ((\<exists>e. parseDepEx (drop hs (s_buf s)) = Inl e) \<longrightarrow>
            NewSection (Suc n) env st buf i = Some (Inr (Section (s\<lparr>s_DepEx := []\<rparr>) []), st))"
proof (intro conjI impI allI)
  assume "0x08 \<notin> set (drop hs (s_buf s))"
  then show "\<exists>e. parseDepEx (drop hs (s_buf s)) = Inl e" by (rule parseDepEx_without_END)
next
  fix ops assume "parseDepEx (drop hs (s_buf s)) = Inr ops"
  then show "ops \<noteq> []" and "op_OpCode (last ops) = END"
    using parseDepEx_ends by blast+
next
  assume "\<exists>e. parseDepEx (drop hs (s_buf s)) = Inl e"
  then show "NewSection (Suc n) env st buf i = Some (Inr (Section (s\<lparr>s_DepEx := []\<rparr>) []), st)"
    using NewSection_DepEx [OF assms(1,2), of n env st] assms(3) by auto
qed

text \<open>
  The opcode bytes \<open>02 <16-byte GUID> 06\<close>, without the trailing \<open>08\<close>, in a DXE
  dependency-expression section of 22 bytes.
\<close>

definition depex_example_buf :: "byte list" where
  "depex_example_buf = [0x16, 0x00, 0x00, 0x13, 0x02,
     0x11, 0x11, 0x11, 0x11, 0x11, 0x11, 0x11, 0x11, 0x11, 0x11, 0x11, 0x11, 0x11, 0x11, 0x11, 0x11,
     0x06]"

definition depex_example_section :: SectionInfo where
  "depex_example_section = zero_SectionInfo\<lparr>s_Size := (0x16, 0x00, 0x00), s_Type := 0x13,
     s_ExtendedSize := 0x16, s_TypeName := ''EFI_SECTION_DXE_DEPEX'', s_buf := depex_example_buf\<rparr>"

lemma depex_example_header:
  "NewSection_header depex_example_buf 0 = Inr (depex_example_section, 4)"
  by (simp add: NewSection_header_def depex_example_buf_def depex_example_section_def
      recognized_section_type_def Read3Size_def le_word_def SectionType_String_def
      sectionTypeNames_def zero_SectionInfo_def)

lemma depex_example_parse:
  "parseDepEx (drop 4 depex_example_buf) = Inl ErrDepExNoEnd"
  by (simp add: depex_example_buf_def DepExOpCodes_def)

theorem NewSection_DepEx_missing_END_witness:
  "(\<exists>e. parseDepEx (drop 4 depex_example_buf) = Inl e) \<and>
   NewSection 1 env0 None depex_example_buf 0 =
     Some (Inr (Section (depex_example_section\<lparr>s_DepEx := []\<rparr>) []), None)"
proof -
  have t: "is_DepEx_type (s_Type depex_example_section)"
    by (simp add: depex_example_section_def is_DepEx_type_def SectionTypeDXEDepEx_def)
  have l: "4 < length (s_buf depex_example_section)"
    by (simp add: depex_example_section_def depex_example_buf_def)
  have b: "s_buf depex_example_section = depex_example_buf"
    by (simp add: depex_example_section_def)
  have n: "0x08 \<notin> set (drop 4 (s_buf depex_example_section))"
    by (simp add: b depex_example_buf_def)
  show ?thesis
    using NewSection_DepEx_missing_END [OF depex_example_header t l, of 0 env0 None] n
    by (simp add: b)
qed

theorem NewSection_DepEx_no_error_counterexample:
  "is_DepEx_type (depex_example_buf ! 3) \<and>
   parseDepEx (drop 4 depex_example_buf) = Inl ErrDepExNoEnd \<and>
   NewSection 1 env0 None depex_example_buf 0 =
     Some (Inr (Section (depex_example_section\<lparr>s_DepEx := []\<rparr>) []), None)"
proof -
  have t: "is_DepEx_type (s_Type depex_example_section)"
    by (simp add: depex_example_section_def is_DepEx_type_def SectionTypeDXEDepEx_def)
  have b: "s_buf depex_example_section = depex_example_buf"
    by (simp add: depex_example_section_def)
  have "NewSection (Suc 0) env0 None depex_example_buf 0 =
      Some (Inr (Section (depex_example_section\<lparr>s_DepEx := []\<rparr>) []), None)"
    using NewSection_DepEx [OF depex_example_header t, of 0 env0 None] depex_example_parse
    by (simp add: b) (simp add: depex_example_buf_def)
  moreover have "is_DepEx_type (depex_example_buf ! 3)"
    by (simp add: depex_example_buf_def is_DepEx_type_def SectionTypeDXEDepEx_def)
  ultimately show ?thesis using depex_example_parse by simp
qed

section \<open>Properties of NewFirmwareVolume\<close>






















section \<open>Properties of NewFile and of the file loop of NewFirmwareVolume\<close>









definition fv_zero_data :: "byte list" where
  "fv_zero_data = [0x00, 0x00, 0x00, 0x00, 0x00, 0x00, 0x00, 0x00, 0x00, 0x00, 0x00, 0x00, 0x00, 0x00, 0x00, 0x00,
     0x78, 0xE5, 0x8C, 0x8C, 0x3D, 0x8A, 0x1C, 0x4F, 0x99, 0x35, 0x89, 0x61, 0x85, 0xC3, 0x2D, 0xD3,
     0x68, 0x00, 0x00, 0x00, 0x00, 0x00, 0x00, 0x00, 0x5F, 0x46, 0x56, 0x48, 0xFF, 0xFE, 0x04, 0x00,
     0x48, 0x00, 0x00, 0x00, 0x00, 0x00, 0x00, 0x02, 0x01, 0x00, 0x00, 0x00, 0x68, 0x00, 0x00, 0x00,
     0x00, 0x00, 0x00, 0x00, 0x00, 0x00, 0x00, 0x00, 0x33, 0x33, 0x33, 0x33, 0x33, 0x33, 0x33, 0x33,
     0x33, 0x33, 0x33, 0x33, 0x33, 0x33, 0x33, 0x33, 0x00, 0xAA, 0xF0, 0x00, 0x00, 0x00, 0x00, 0xF8,
     0xFF, 0xFF, 0xFF, 0xFF, 0xFF, 0xFF, 0xFF, 0xFF]"





lemma fv_zero_parse:
  "NewFirmwareVolume 3 env0 None fv_zero_data 0 False = Some (Inl ErrFileLengthZero, Some 0xFF)"
  by code_simp




section \<open>The size of a file\<close>

lemma IsLarge_setLarge [simp]:
  "IsLarge (setLarge True a)" "\<not> IsLarge (setLarge False a)"
proof -
  have "(a OR 1) AND 1 = (1 :: byte)"
    by (rule bit_word_eqI) (auto simp add: bit_simps)
  then show "IsLarge (setLarge True a)" by (simp add: IsLarge_def setLarge_def)
  have "(254 :: byte) = NOT 1" by simp
  then have "(a AND 254) AND 1 = (0 :: byte)"
    by (simp only: and.assoc) simp
  then show "\<not> IsLarge (setLarge False a)" by (simp add: IsLarge_def setLarge_def)
qed

lemma SetSize_large:
  "IsLarge (f_Attributes (SetSize f sz r)) \<longleftrightarrow> sz > 0xFFFFFF"
  by (simp add: SetSize_def Let_def)

lemma SetSize_small:
  "\<not> sz > 0xFFFFFF \<Longrightarrow> f_ExtendedSize (SetSize f sz r) = sz"
  by (simp add: SetSize_def Let_def)

lemma unat_of_nat_le: "unat (of_nat n :: uint64) \<le> n"
  by (simp add: unat_of_nat)

lemma NewFile_header_size:
  assumes "NewFile_header env buf = Inr (Some (f, nv))"
  shows "unat (f_ExtendedSize f) \<le> length buf \<and>
         f_buf f = take (unat (f_ExtendedSize f)) buf \<and>
         f_Attributes f = buf ! 19 \<and> f_Size f = (buf ! 20, buf ! 21, buf ! 22) \<and>
         (f_Size f \<noteq> (0xFF, 0xFF, 0xFF) \<longrightarrow> f_ExtendedSize f = Read3Size (f_Size f))"
proof -
  define f0 where "f0 = zero_FileInfo\<lparr>f_DataOffset := of_nat FileHeaderMinLength,
      f_GUID := take 16 buf, f_Checksum_Header := buf ! 16,
      f_Checksum_File := buf ! 17, f_Type := buf ! 18, f_Attributes := buf ! 19,
      f_Size := (buf ! 20, buf ! 21, buf ! 22), f_State := buf ! 23,
      f_TypeName := FVFileType_String (buf ! 18)\<rparr>"
  define f1 where "f1 = (if f_Size f0 = (0xFF, 0xFF, 0xFF)
      then f0\<lparr>f_ExtendedSize := le_word (slice buf 24 32),
                f_DataOffset := of_nat FileHeaderExtMinLength\<rparr>
      else f0\<lparr>f_ExtendedSize := Read3Size (f_Size f0)\<rparr>)"
  have a: "f_Attributes f1 = buf ! 19" "f_Size f1 = (buf ! 20, buf ! 21, buf ! 22)"
    "f_Size f1 \<noteq> (0xFF, 0xFF, 0xFF) \<longrightarrow> f_ExtendedSize f1 = Read3Size (f_Size f1)"
    by (simp_all add: f1_def f0_def)
  from assms have le: "\<not> f_ExtendedSize f1 > of_nat (length buf)"
    and f: "f = f1\<lparr>f_buf := take (unat (f_ExtendedSize f1)) buf\<rparr>"
    unfolding NewFile_header_def f1_def f0_def
    by (auto simp: Let_def split: if_splits)
  from le have "unat (f_ExtendedSize f1) \<le> unat (of_nat (length buf) :: uint64)"
    unfolding not_less word_le_nat_alt .
  then have "unat (f_ExtendedSize f1) \<le> length buf"
    using unat_of_nat_le [of "length buf"] by simp
  then show ?thesis using a by (simp add: f)
qed

lemma NewFile_info:
  assumes "NewFile n env st buf = Some (Inr (Some file), st')"
  shows "\<exists>nv. NewFile_header env buf = Inr (Some (f_info file, nv))"
proof (cases n)
  case 0
  with assms show ?thesis by (simp add: NewFile.simps)
next
  case (Suc m)
  with assms show ?thesis
    by (auto simp: NewFile.simps split: sum.splits option.splits prod.splits if_splits)
qed

lemma Read3Size_le: "\<not> Read3Size sz > 0xFFFFFF"
proof -
  have "unat (Read3Size sz) < 2 ^ 24" by (rule Read3Size_less)
  then show ?thesis by (simp add: word_less_nat_alt)
qed

text \<open>
  Claim C8, as the code has it. \<open>SetSize\<close> sets the large-file attribute bit exactly
  when the requested size exceeds \<open>0xFFFFFF\<close>, so that afterwards
  \<open>ExtendedSize > 0xFFFFFF\<close> implies that the bit is set. \<open>NewFile\<close> takes the
  attribute byte from the header as it is; what it ensures is that \<open>ExtendedSize\<close>
  does not exceed the buffer, and that \<open>ExtendedSize > 0xFFFFFF\<close> only when the three
  size bytes are all \<open>0xFF\<close> (an extended header was read).
\<close>

theorem file_size_invariant:
  "(IsLarge (f_Attributes (SetSize f sz r)) \<longleftrightarrow> sz > 0xFFFFFF) \<and>
   (f_ExtendedSize (SetSize f sz r) > 0xFFFFFF \<longrightarrow> IsLarge (f_Attributes (SetSize f sz r))) \<and>
   (NewFile n env st buf = Some (Inr (Some file), st') \<longrightarrow>
      unat (f_ExtendedSize (f_info file)) \<le> length buf \<and>
      f_Attributes (f_info file) = buf ! 19 \<and>
      (f_ExtendedSize (f_info file) > 0xFFFFFF \<longrightarrow> f_Size (f_info file) = (0xFF, 0xFF, 0xFF)))"
proof (intro conjI impI)
  show "IsLarge (f_Attributes (SetSize f sz r)) \<longleftrightarrow> sz > 0xFFFFFF" by (rule SetSize_large)
next
  assume "f_ExtendedSize (SetSize f sz r) > 0xFFFFFF"
  then have "sz > 0xFFFFFF" using SetSize_small [of sz f r] by (cases "sz > 0xFFFFFF") simp_all
  then show "IsLarge (f_Attributes (SetSize f sz r))" by (simp add: SetSize_large)
next
  assume a: "NewFile n env st buf = Some (Inr (Some file), st')"
  then obtain nv where h: "NewFile_header env buf = Inr (Some (f_info file, nv))"
    using NewFile_info by blast
  from NewFile_header_size [OF h]
  show "unat (f_ExtendedSize (f_info file)) \<le> length buf"
    and "f_Attributes (f_info file) = buf ! 19"
    by simp_all
  assume "f_ExtendedSize (f_info file) > 0xFFFFFF"
  then show "f_Size (f_info file) = (0xFF, 0xFF, 0xFF)"
    using NewFile_header_size [OF h] Read3Size_le [of "f_Size (f_info file)"] by auto
qed

text \<open>
  A pad-file header of 24 bytes whose size bytes say 5: \<open>NewFile\<close> returns the file with
  \<open>ExtendedSize = 5\<close>, below its header length of 24; \<open>SetSize\<close> with size 0 sets
  \<open>ExtendedSize = 0\<close>. A file of \<open>0x1000000\<close> bytes with the size bytes \<open>FF FF FF\<close>
  and the attribute byte 0: \<open>NewFile\<close> returns it with the large-file bit clear.
\<close>

definition small_file_buf :: "byte list" where
  "small_file_buf = [0x33, 0x33, 0x33, 0x33, 0x33, 0x33, 0x33, 0x33, 0x33, 0x33, 0x33, 0x33, 0x33, 0x33, 0x33, 0x33,
     0x00, 0xAA, 0xF0, 0x00, 0x05, 0x00, 0x00, 0xF8]"

definition small_file_info :: FileInfo where
  "small_file_info = \<lparr>f_GUID = replicate 16 0x33, f_Checksum_Header = 0,
     f_Checksum_File = 0xAA, f_Type = 0xF0, f_Attributes = 0, f_Size = (5, 0, 0), f_State = 0xF8,
     f_ExtendedSize = 5, f_TypeName = ''UNKNOWN_FILETYPE_0xf0'', f_buf = replicate 5 0x33,
     f_ExtractPath = [], f_DataOffset = 24\<rparr>"

definition big_file_header :: "byte list" where
  "big_file_header = [0x33, 0x33, 0x33, 0x33, 0x33, 0x33, 0x33, 0x33, 0x33, 0x33, 0x33, 0x33, 0x33, 0x33, 0x33, 0x33,
     0x00, 0xAA, 0xF0, 0x00, 0xFF, 0xFF, 0xFF, 0xF8, 0x00, 0x00, 0x00, 0x01, 0x00, 0x00, 0x00, 0x00]"

definition big_file_buf :: "byte list" where
  "big_file_buf = big_file_header @ replicate 16777184 0"

definition big_file_info :: FileInfo where
  "big_file_info = \<lparr>f_GUID = replicate 16 0x33, f_Checksum_Header = 0,
     f_Checksum_File = 0xAA, f_Type = 0xF0, f_Attributes = 0, f_Size = (0xFF, 0xFF, 0xFF),
     f_State = 0xF8, f_ExtendedSize = 0x1000000, f_TypeName = ''UNKNOWN_FILETYPE_0xf0'',
     f_buf = big_file_buf, f_ExtractPath = [], f_DataOffset = 32\<rparr>"

lemma small_file_parse:
  "NewFile 1 env0 None small_file_buf = Some (Inr (Some (File small_file_info [] None)), None)"
  by code_simp

lemma NVAR_bytes:
  "NVAR = [0xa3, 0xb9, 0xf5, 0xce, 0x6d, 0x47, 0x7f, 0x49, 0x9f, 0xdc, 0xe9, 0x81, 0x43, 0xe0, 0x42, 0x2c]"
  by code_simp

lemma big_file_header_parse:
  "NewFile_header env0 big_file_buf = Inr (Some (big_file_info, None))"
proof -
  have l: "length big_file_header = 32" by (simp add: big_file_header_def)
  have n: "\<And>i. i < 32 \<Longrightarrow> big_file_buf ! i = big_file_header ! i"
    by (simp add: big_file_buf_def nth_append l)
  have s: "slice big_file_buf 24 32 = slice big_file_header 24 32"
    by (simp add: slice_def big_file_buf_def l)
  have t: "take 16 big_file_buf = take 16 big_file_header"
    by (simp add: big_file_buf_def l)
  have e: "(le_word (slice big_file_header 24 32) :: uint64) = 0x1000000"
    by (simp add: big_file_header_def slice_def le_word_def)
  have len: "length big_file_buf = 16777216" by (simp add: big_file_buf_def l)
  have h: "big_file_header ! 16 = 0" "big_file_header ! 17 = 0xAA" "big_file_header ! 18 = 0xF0"
    "big_file_header ! 19 = 0" "big_file_header ! 20 = 0xFF" "big_file_header ! 21 = 0xFF"
    "big_file_header ! 22 = 0xFF" "big_file_header ! 23 = 0xF8"
    "take 16 big_file_header = replicate 16 0x33"
    by (simp_all add: big_file_header_def numeral_eq_Suc)
  have ty: "FVFileType_String 0xF0 = ''UNKNOWN_FILETYPE_0xf0''" by code_simp
  show ?thesis
    by (simp add: NewFile_header_def Let_def n s t e len h ty FileHeaderMinLength_def
        FileHeaderExtMinLength_def zero_FileInfo_def big_file_info_def FVFileTypeRaw_def)
qed

lemma big_file_parse:
  "NewFile 1 env0 None big_file_buf = Some (Inr (Some (File big_file_info [] None)), None)"
proof -
  have "\<not> SupportedFiles (f_Type big_file_info)"
    by (simp add: SupportedFiles_def big_file_info_def)
  then have "NewFile (Suc 0) env0 None big_file_buf =
      Some (Inr (Some (File big_file_info [] None)), None)"
    by (simp add: NewFile.simps big_file_header_parse)
  then show ?thesis by simp
qed

theorem file_size_invariant_witness:
  "IsLarge (f_Attributes (SetSize zero_FileInfo 0x1000000 True)) \<and>
   \<not> IsLarge (f_Attributes (SetSize zero_FileInfo 0x20 True)) \<and>
   unat (f_ExtendedSize small_file_info) \<le> length small_file_buf \<and>
   f_Attributes small_file_info = small_file_buf ! 19 \<and>
   f_Size big_file_info = (0xFF, 0xFF, 0xFF)"
proof -
  have a: "(0x1000000 :: uint64) > 0xFFFFFF" by simp
  have b: "\<not> (0x20 :: uint64) > 0xFFFFFF" by simp
  have c: "f_ExtendedSize (f_info (File big_file_info [] None)) > 0xFFFFFF"
    by (simp add: big_file_info_def)
  have t1: "IsLarge (f_Attributes (SetSize zero_FileInfo 0x1000000 True))"
    using file_size_invariant [of zero_FileInfo "0x1000000" True 0 env0 None "[]" undefined None] a
    by blast
  have t2: "\<not> IsLarge (f_Attributes (SetSize zero_FileInfo 0x20 True))"
    using file_size_invariant [of zero_FileInfo "0x20" True 0 env0 None "[]" undefined None] b
    by blast
  have t3: "unat (f_ExtendedSize small_file_info) \<le> length small_file_buf \<and>
      f_Attributes small_file_info = small_file_buf ! 19"
    using file_size_invariant [of zero_FileInfo 0 True 1 env0 None small_file_buf
        "File small_file_info [] None" None] small_file_parse
    by simp
  have t4: "f_Size big_file_info = (0xFF, 0xFF, 0xFF)"
    using file_size_invariant [of zero_FileInfo 0 True 1 env0 None big_file_buf
        "File big_file_info [] None" None] big_file_parse c
    by simp
  show ?thesis using t1 t2 t3 t4 by simp
qed

theorem file_size_unchecked_counterexample:
  "NewFile 1 env0 None small_file_buf = Some (Inr (Some (File small_file_info [] None)), None) \<and>
   f_ExtendedSize small_file_info < HeaderLen small_file_info \<and>
   f_ExtendedSize (SetSize zero_FileInfo 0 False) < HeaderLen (SetSize zero_FileInfo 0 False) \<and>
   NewFile 1 env0 None big_file_buf = Some (Inr (Some (File big_file_info [] None)), None) \<and>
   f_ExtendedSize big_file_info > 0xFFFFFF \<and> \<not> IsLarge (f_Attributes big_file_info)"
proof -
  have "f_ExtendedSize small_file_info < HeaderLen small_file_info"
    by (simp add: small_file_info_def HeaderLen_def IsLarge_def FileHeaderMinLength_def)
  moreover have "f_ExtendedSize (SetSize zero_FileInfo 0 False) <
      HeaderLen (SetSize zero_FileInfo 0 False)"
    by (simp add: HeaderLen_def SetSize_large SetSize_small FileHeaderMinLength_def)
  moreover have "f_ExtendedSize big_file_info > 0xFFFFFF \<and> \<not> IsLarge (f_Attributes big_file_info)"
    by (simp add: big_file_info_def IsLarge_def)
  ultimately show ?thesis using small_file_parse big_file_parse by simp
qed

end
